theory Spec2Isabelle
  imports Complex_Main "HOL-Library.AList"
begin

section \<open>JavaScript values used by the score tracker\<close>

text \<open>
  The tracker of \<^verbatim>\<open>src/src/App.jsx\<close> keeps all of its data in plain JavaScript arrays and
  objects. The embedding fixes the following reading of them.

  \<^item> A number is a rational. The bid and the opponent score are integers (they come from
    \<^verbatim>\<open>parseInt\<close> and from steps of 5), and every value computed in the winning branch of
    the scoring is a small multiple of 1/4, which a double holds exactly. The losing-branch
    share \<^verbatim>\<open>opponentScore * 1.5 / n\<close> is kept as the exact quotient in the result of the
    scoring; the statistics, which add the stored scores up and round the sums and the win
    rates, read a stored score as the double nearest to it (\<open>fl\<close> below) and round every
    sum, quotient and product to a double as JavaScript does. Counters stay below
    \<open>2\<^sup>5\<^sup>3\<close>, where adding one is exact. (\<^verbatim>\<open>parseInt\<close> gives \<^verbatim>\<open>NaN\<close> for an input
    such as \<^verbatim>\<open>.5\<close>; \<^verbatim>\<open>NaN\<close> is not a number of the model.)
  \<^item> An object used as a dictionary is the list of its own properties in insertion order;
    assigning to an existing key keeps its position. (JavaScript enumerates keys that look
    like array indices first: the examples below have no such name, and the general
    statements do not depend on the order of the keys.) A read
    of a key that the object does not have finds the members of \<^verbatim>\<open>Object.prototype\<close>
    (\<open>proto_members\<close> below). An assignment \<^verbatim>\<open>ob[k] = v\<close> to an object literal adds or
    replaces an own property, except for the key \<^verbatim>\<open>__proto__\<close>, which would replace the
    prototype of the object instead: the statements on the statistics tables require that
    no roster slot holds that name.
  \<^item> A value that is a string or \<^verbatim>\<open>undefined\<close> is a \<open>string option\<close>. An array
    slot is either a hole (left by a write past the end of the array) or an element holding
    such a value. Reading a hole, or any index past the end, gives \<^verbatim>\<open>undefined\<close>;
    \<^verbatim>\<open>map\<close>, \<^verbatim>\<open>filter\<close>, \<^verbatim>\<open>reduce\<close> and \<^verbatim>\<open>forEach\<close> skip holes, while
    iteration (spread, \<^verbatim>\<open>Object.fromEntries\<close>) visits them as \<^verbatim>\<open>undefined\<close>.
  \<^item> A thrown \<^verbatim>\<open>TypeError\<close> is the left injection of a sum.
\<close>

datatype js_error = TypeError

type_synonym 'v js_object = "(string \<times> 'v) list"

type_synonym jsval = "string option"

datatype slot = Hole | Elem jsval

definition slot_value :: "slot \<Rightarrow> jsval" where
  "slot_value s = (case s of Hole \<Rightarrow> None | Elem v \<Rightarrow> v)"

definition named :: "string \<Rightarrow> slot" where
  "named n = Elem (Some n)"

definition obj_get :: "'v js_object \<Rightarrow> string \<Rightarrow> 'v option" where
  "obj_get ob k = map_of ob k"

definition obj_set :: "string \<Rightarrow> 'v \<Rightarrow> 'v js_object \<Rightarrow> 'v js_object" where
  "obj_set k v ob = AList.update k v ob"

text \<open>\<^verbatim>\<open>xs[i]\<close>: \<^verbatim>\<open>undefined\<close> past the end of the array.\<close>

definition js_nth :: "slot list \<Rightarrow> nat \<Rightarrow> jsval" where
  "js_nth xs i = (if i < length xs then slot_value (xs ! i) else None)"

text \<open>Property keys are strings: \<^verbatim>\<open>undefined\<close> used as a key is the string "undefined".\<close>

definition to_key :: "jsval \<Rightarrow> string" where
  "to_key p = (case p of None \<Rightarrow> ''undefined'' | Some s \<Rightarrow> s)"

text \<open>\<^verbatim>\<open>Math.round\<close>: the nearest integer, a half going up.\<close>

definition js_round :: "rat \<Rightarrow> int" where
  "js_round x = \<lfloor>x + 1 / 2\<rfloor>"

text \<open>
  The double nearest to a rational (IEEE 754 binary64, ties to the even significand), for
  magnitudes in the normal range of the doubles (smaller and larger magnitudes, which no
  score, sum or rate of the tracker reaches, are not modelled): the magnitude is scaled by a
  power of two into the interval from \<open>2\<^sup>5\<^sup>2\<close> to \<open>2\<^sup>5\<^sup>3\<close>, rounded to an integer and
  scaled back. \<open>bit_length\<close> counts the binary digits of a positive integer.
\<close>

function bit_length :: "int \<Rightarrow> int" where
  "bit_length k = (if k \<le> 0 then 0 else 1 + bit_length (k div 2))"
  by pat_completeness auto
termination
  by (relation "measure nat") auto

declare bit_length.simps [simp del]

definition pow2 :: "int \<Rightarrow> rat" where
  "pow2 e = (if 0 \<le> e then of_int (2 ^ nat e) else 1 / of_int (2 ^ nat (- e)))"

text \<open>For a magnitude \<open>n / d\<close> and an exponent \<open>e\<close>, the scaled magnitude
  \<open>n / d / 2\<^sup>e\<close> is the quotient of the two integers \<open>n * 2\<^sup>-\<^sup>e\<close> and \<open>d\<close> when \<open>e\<close> is
  negative, and of \<open>n\<close> and \<open>d * 2\<^sup>e\<close> otherwise. The exponent \<open>e0\<close> puts it between
  \<open>2\<^sup>5\<^sup>2\<close> and \<open>2\<^sup>5\<^sup>4\<close>, and \<open>e\<close> between \<open>2\<^sup>5\<^sup>2\<close> and \<open>2\<^sup>5\<^sup>3\<close>; \<open>m\<close> is the nearest
  integer, the even one of two that are equally near.\<close>

definition fl :: "rat \<Rightarrow> rat" where
  "fl x =
     (if x = 0 then 0
      else
        let n = fst (quotient_of \<bar>x\<bar>);
            d = snd (quotient_of \<bar>x\<bar>);
            e0 = bit_length n - bit_length d - 53;
            e = (if 2 ^ 53 * (d * 2 ^ nat e0) \<le> n * 2 ^ nat (- e0) then e0 + 1 else e0);
            num = n * 2 ^ nat (- e);
            den = d * 2 ^ nat e;
            q = num div den;
            r = num mod den;
            m = (if 2 * r < den then q else if den < 2 * r then q + 1
                 else if even q then q else q + 1)
        in (if x < 0 then - 1 else 1) * of_int m * pow2 e)"

text \<open>Decimal rendering of integers, as template literals and \<^verbatim>\<open>toFixed\<close> produce it
  (for magnitudes below \<open>10\<^sup>2\<^sup>1\<close>, where JavaScript does not switch to exponents).\<close>

definition digit_char :: "nat \<Rightarrow> char" where
  "digit_char d = char_of (48 + d)"

fun show_nat :: "nat \<Rightarrow> string" where
  "show_nat n = (if n < 10 then [digit_char n] else show_nat (n div 10) @ [digit_char (n mod 10)])"

declare show_nat.simps [simp del]

definition show_int :: "int \<Rightarrow> string" where
  "show_int i = (if i < 0 then ''-'' @ show_nat (nat (- i)) else show_nat (nat i))"

text \<open>\<^verbatim>\<open>x.toFixed(0)\<close>: the sign, then the magnitude rounded to the nearest integer, a half
  going to the larger one.\<close>

definition toFixed0 :: "rat \<Rightarrow> string" where
  "toFixed0 x = (if x < 0 then ''-'' @ show_nat (nat \<lfloor>- x + 1 / 2\<rfloor>) else show_nat (nat \<lfloor>x + 1 / 2\<rfloor>))"

section \<open>Scoring logic\<close>

text \<open>The form's \<^verbatim>\<open>mode\<close> is one of the two option values of its select box,
  \<^verbatim>\<open>"Normal"\<close> and \<^verbatim>\<open>"1v5"\<close>.\<close>

datatype mode = Normal | OneVFive

text \<open>The object returned by \<^verbatim>\<open>calculateScores\<close>:
  \<^verbatim>\<open>{ scores, winner, distribution }\<close>.\<close>

record calc_result =
  scores :: "rat js_object"
  winner :: string
  distribution :: string

text \<open>\<^verbatim>\<open>Object.fromEntries(players.map((p) => [p, 0]))\<close> on the keys of a roster without
  holes. (\<^verbatim>\<open>map\<close> keeps a hole a hole, and \<^verbatim>\<open>Object.fromEntries\<close> throws a
  \<^verbatim>\<open>TypeError\<close> when it meets \<^verbatim>\<open>undefined\<close> where a key-value pair is expected:
  \<open>calculateScores\<close> below checks for holes first.)\<close>

definition zero_scores :: "string list \<Rightarrow> rat js_object" where
  "zero_scores names = fold (\<lambda>p ob. obj_set p 0 ob) names []"

text \<open>\<^verbatim>\<open>opponents.forEach((p) => (scores[p] = each))\<close>\<close>

definition assign_each :: "rat \<Rightarrow> string list \<Rightarrow> rat js_object \<Rightarrow> rat js_object" where
  "assign_each each opponents sc = fold (\<lambda>p ob. obj_set p each ob) opponents sc"

text \<open>With no opponent left, \<^verbatim>\<open>(opponentScore * 1.5) / 0\<close> is an infinity or
  \<^verbatim>\<open>NaN\<close>; it is assigned to nobody and only shows in the distribution text.\<close>

definition div0_text :: "int \<Rightarrow> string" where
  "div0_text x = (if x = 0 then ''NaN'' else if 0 < x then ''Infinity'' else ''-Infinity'')"

text \<open>\<^verbatim>\<open>calculateScores\<close>, lines 190 to 233 of \<^verbatim>\<open>src/src/App.jsx\<close>. The unused
  \<^verbatim>\<open>n = players.length\<close> is left out. With one friend the source reads the host's
  share back from \<^verbatim>\<open>scores[hostName]\<close>, which it has just assigned; \<open>hostShare\<close> is
  that number.\<close>

definition calculateScores ::
  "mode \<Rightarrow> slot list \<Rightarrow> nat \<Rightarrow> nat list \<Rightarrow> int \<Rightarrow> int \<Rightarrow> js_error + calc_result" where
  "calculateScores mode players hostIdx friendIdxs bid opponentScore =
    (if Hole \<in> set players then Inl TypeError
     else
       let scores0 = zero_scores (map (\<lambda>p. to_key (slot_value p)) players);
           hostName = js_nth players hostIdx;
           friendNames = map (\<lambda>i. js_nth players i) friendIdxs;
           teamSet = set (hostName # friendNames);
           opponents = map to_key (filter (\<lambda>p. p \<notin> teamSet) (map slot_value players));
           winHostTeam = (opponentScore < bid)
       in
       if mode = OneVFive then
         (if winHostTeam then
            Inr \<lparr>scores = obj_set (to_key hostName) 400 scores0,
                 winner = ''Host'',
                 distribution = ''1v5 host win: +400''\<rparr>
          else
            let each = (of_int opponentScore * (3 / 2)) / 5 in
            Inr \<lparr>scores = assign_each each opponents scores0,
                 winner = ''Opponents'',
                 distribution = ''1v5 opponents: each +'' @ toFixed0 each\<rparr>)
       else if winHostTeam then
         (let distributable = 400 - opponentScore;
              d = (of_int distributable :: rat);
              scores1 =
                (case friendNames of
                   [] \<Rightarrow> obj_set (to_key hostName) d scores0
                 | [f] \<Rightarrow>
                     let hostShare = of_int (js_round (d * (3 / 4))) in
                     obj_set (to_key f) (d - hostShare)
                       (obj_set (to_key hostName) hostShare scores0)
                 | f1 # f2 # _ \<Rightarrow>
                     let hostShare = of_int (js_round (d * (1 / 2)));
                         friendShare = of_int (js_round ((d - hostShare) / 2)) in
                     obj_set (to_key f2) (d - hostShare - friendShare)
                       (obj_set (to_key f1) friendShare
                         (obj_set (to_key hostName) hostShare scores0)))
          in Inr \<lparr>scores = scores1,
                  winner = ''Host Team'',
                  distribution = ''Host team split of '' @ show_int (400 - opponentScore)\<rparr>)
       else if length opponents = 0 then
         Inr \<lparr>scores = scores0,
              winner = ''Opponents'',
              distribution = ''Opponents each +'' @ div0_text opponentScore\<rparr>
       else
         (let each = (of_int opponentScore * (3 / 2)) / of_nat (length opponents) in
          Inr \<lparr>scores = assign_each each opponents scores0,
               winner = ''Opponents'',
               distribution = ''Opponents each +'' @ toFixed0 each\<rparr>))"

text \<open>The second copy of \<^verbatim>\<open>calculateScores\<close>, lines 113 to 156 of
  \<^verbatim>\<open>src/unnamed/part_001\<close>, translated from that file on its own.\<close>

definition calculateScores_part_001 ::
  "mode \<Rightarrow> slot list \<Rightarrow> nat \<Rightarrow> nat list \<Rightarrow> int \<Rightarrow> int \<Rightarrow> js_error + calc_result" where
  "calculateScores_part_001 mode players hostIdx friendIdxs bid opponentScore =
    (if Hole \<in> set players then Inl TypeError
     else
       let scores0 = zero_scores (map (\<lambda>p. to_key (slot_value p)) players);
           hostName = js_nth players hostIdx;
           friendNames = map (\<lambda>i. js_nth players i) friendIdxs;
           teamSet = set (hostName # friendNames);
           opponents = map to_key (filter (\<lambda>p. p \<notin> teamSet) (map slot_value players));
           winHostTeam = (opponentScore < bid)
       in
       if mode = OneVFive then
         (if winHostTeam then
            Inr \<lparr>scores = obj_set (to_key hostName) 400 scores0,
                 winner = ''Host'',
                 distribution = ''1v5 host win: +400''\<rparr>
          else
            let each = (of_int opponentScore * (3 / 2)) / 5 in
            Inr \<lparr>scores = assign_each each opponents scores0,
                 winner = ''Opponents'',
                 distribution = ''1v5 opponents: each +'' @ toFixed0 each\<rparr>)
       else if winHostTeam then
         (let distributable = 400 - opponentScore;
              d = (of_int distributable :: rat);
              scores1 =
                (case friendNames of
                   [] \<Rightarrow> obj_set (to_key hostName) d scores0
                 | [f] \<Rightarrow>
                     let hostShare = of_int (js_round (d * (3 / 4))) in
                     obj_set (to_key f) (d - hostShare)
                       (obj_set (to_key hostName) hostShare scores0)
                 | f1 # f2 # _ \<Rightarrow>
                     let hostShare = of_int (js_round (d * (1 / 2)));
                         friendShare = of_int (js_round ((d - hostShare) / 2)) in
                     obj_set (to_key f2) (d - hostShare - friendShare)
                       (obj_set (to_key f1) friendShare
                         (obj_set (to_key hostName) hostShare scores0)))
          in Inr \<lparr>scores = scores1,
                  winner = ''Host Team'',
                  distribution = ''Host team split of '' @ show_int (400 - opponentScore)\<rparr>)
       else if length opponents = 0 then
         Inr \<lparr>scores = scores0,
              winner = ''Opponents'',
              distribution = ''Opponents each +'' @ div0_text opponentScore\<rparr>
       else
         (let each = (of_int opponentScore * (3 / 2)) / of_nat (length opponents) in
          Inr \<lparr>scores = assign_each each opponents scores0,
               winner = ''Opponents'',
               distribution = ''Opponents each +'' @ toFixed0 each\<rparr>))"

section \<open>Sessions and the form state\<close>

text \<open>
  A recorded round, as \<^verbatim>\<open>addRound\<close> builds it. The fields are those of the source with
  an \<open>r\<close> in front (\<open>round_no\<close> is the field \<^verbatim>\<open>round\<close>, \<open>rid\<close> the field
  \<^verbatim>\<open>id\<close>), since the form state and the result of the scoring use the same names.
\<close>

record round_rec =
  rid :: string
  round_no :: nat
  rmode :: mode
  rplayers :: "jsval list"
  rhost :: jsval
  rfriends :: "jsval list"
  rbid :: int
  ropponentScore :: int
  rscores :: "rat js_object"
  rwinner :: string
  rdistribution :: string
  rdate :: string

record session =
  players :: "slot list"
  rounds :: "round_rec list"
  currentRound :: nat

text \<open>The component's state: the sessions by date label, the selected date and the fields
  of the New Game form.\<close>

record app =
  gameData :: "session js_object"
  selectedDate :: string
  mode :: mode
  host :: nat
  friends :: "nat list"
  bid :: int
  opponentScore :: int

definition defaultPlayers :: "slot list" where
  "defaultPlayers =
     map named [''Player 1'', ''Player 2'', ''Player 3'', ''Player 4'', ''Player 5'', ''Player 6'']"

definition START_BID :: int where
  "START_BID = 150"

definition NO_BIDS_VALUE :: int where
  "NO_BIDS_VALUE = 160"

definition default_session :: session where
  "default_session = \<lparr>players = defaultPlayers, rounds = [], currentRound = 1\<rparr>"

text \<open>The initial state of the component, on the day \<open>today\<close>.\<close>

definition initial_app :: "string \<Rightarrow> app" where
  "initial_app today =
     \<lparr>gameData = [(today, default_session)], selectedDate = today,
      mode = Normal, host = 0, friends = [], bid = START_BID, opponentScore = 0\<rparr>"

text \<open>\<^verbatim>\<open>getCurrent\<close>: the session of the selected date, or a default one. (The source also
  schedules the storing of that same default session under the date.)\<close>

definition getCurrent :: "app \<Rightarrow> session" where
  "getCurrent st =
     (case obj_get (gameData st) (selectedDate st) of
        None \<Rightarrow> default_session
      | Some s \<Rightarrow> s)"

text \<open>\<^verbatim>\<open>updateCurrent\<close>: replaces the entry of the selected date by the updater's result
  on the existing session (\<^verbatim>\<open>prev[selectedDate] ?? default\<close>).\<close>

definition updateCurrent :: "(session \<Rightarrow> session) \<Rightarrow> app \<Rightarrow> app" where
  "updateCurrent updater st =
     (let existing = (case obj_get (gameData st) (selectedDate st) of
                        None \<Rightarrow> default_session
                      | Some s \<Rightarrow> s)
      in st\<lparr>gameData := obj_set (selectedDate st) (updater existing) (gameData st)\<rparr>)"

text \<open>\<^verbatim>\<open>[...xs]\<close>: the copy is dense, a hole becomes an element holding
  \<^verbatim>\<open>undefined\<close>.\<close>

definition spread :: "slot list \<Rightarrow> slot list" where
  "spread xs = map (\<lambda>s. Elem (slot_value s)) xs"

text \<open>\<^verbatim>\<open>xs[idx] = name\<close>: a write past the end extends the array and leaves holes
  in between.\<close>

definition array_set :: "slot list \<Rightarrow> nat \<Rightarrow> string \<Rightarrow> slot list" where
  "array_set xs idx name =
     (if idx < length xs then xs[idx := Elem (Some name)]
      else xs @ replicate (idx - length xs) Hole @ [Elem (Some name)])"

text \<open>\<^verbatim>\<open>onRename\<close>, lines 73 to 79.\<close>

definition onRename :: "nat \<Rightarrow> string \<Rightarrow> app \<Rightarrow> app" where
  "onRename idx name st =
     updateCurrent (\<lambda>s. s\<lparr>players := array_set (spread (players s)) idx name\<rparr>) st"

text \<open>\<^verbatim>\<open>setSelectedDate\<close>, which the date picker and the Today button call.\<close>

definition setSelectedDate :: "string \<Rightarrow> app \<Rightarrow> app" where
  "setSelectedDate d st = st\<lparr>selectedDate := d\<rparr>"

definition resetNewGameForm :: "app \<Rightarrow> app" where
  "resetNewGameForm st =
     st\<lparr>mode := Normal, host := 0, friends := [], bid := START_BID, opponentScore := 0\<rparr>"

text \<open>
  \<^verbatim>\<open>addRound\<close>, lines 235 to 277. \<open>today\<close> is what \<^verbatim>\<open>todayLabel()\<close> returns at the
  call and \<open>now\<close> the text of \<^verbatim>\<open>Date.now()\<close>. An early \<^verbatim>\<open>return\<close> gives the state
  back as it was; an exception of \<^verbatim>\<open>calculateScores\<close> leaves the handler before any
  state is set.
\<close>

definition addRound :: "string \<Rightarrow> string \<Rightarrow> app \<Rightarrow> js_error + app" where
  "addRound today now st =
     (if selectedDate st \<noteq> today then Inr st
      else
        let roster = players (getCurrent st);
            friendIdxs = filter (\<lambda>i. i \<noteq> host st) (friends st)
        in
        if mode st = Normal \<and> length friendIdxs > 2 then Inr st
        else if bid st < 80 \<and> bid st \<noteq> NO_BIDS_VALUE then Inr st
        else if opponentScore st < 0 \<or> opponentScore st > 400 then Inr st
        else
          case calculateScores (mode st) roster (host st) friendIdxs (bid st) (opponentScore st) of
            Inl e \<Rightarrow> Inl e
          | Inr res \<Rightarrow>
              Inr (resetNewGameForm
                (updateCurrent
                  (\<lambda>s. s\<lparr>rounds := rounds s @
                            [\<lparr>rid = now,
                              round_no = currentRound s,
                              rmode = mode st,
                              rplayers = map slot_value roster,
                              rhost = js_nth roster (host st),
                              rfriends = map (\<lambda>i. js_nth roster i) friendIdxs,
                              rbid = bid st,
                              ropponentScore = opponentScore st,
                              rscores = scores res,
                              rwinner = winner res,
                              rdistribution = distribution res,
                              rdate = selectedDate st\<rparr>],
                          currentRound := currentRound s + 1\<rparr>)
                  st)))"

text \<open>The three validation rules of \<^verbatim>\<open>addRound\<close>, lines 241 to 243, as one
  condition on the form.\<close>

definition rejected :: "app \<Rightarrow> bool" where
  "rejected st =
     (let friendIdxs = filter (\<lambda>i. i \<noteq> host st) (friends st) in
      (mode st = Normal \<and> length friendIdxs > 2) \<or>
      (bid st < 80 \<and> bid st \<noteq> NO_BIDS_VALUE) \<or>
      (opponentScore st < 0 \<or> opponentScore st > 400))"

text \<open>One append attempt: the form is filled in, then \<^verbatim>\<open>addRound\<close> runs. An attempt
  that throws leaves the state as the form left it.\<close>

record attempt =
  a_mode :: mode
  a_host :: nat
  a_friends :: "nat list"
  a_bid :: int
  a_opponentScore :: int
  a_now :: string

definition fill_form :: "attempt \<Rightarrow> app \<Rightarrow> app" where
  "fill_form a st =
     st\<lparr>mode := a_mode a, host := a_host a, friends := a_friends a,
        bid := a_bid a, opponentScore := a_opponentScore a\<rparr>"

definition try_append :: "string \<Rightarrow> attempt \<Rightarrow> app \<Rightarrow> app" where
  "try_append today a st =
     (case addRound today (a_now a) (fill_form a st) of
        Inl e \<Rightarrow> fill_form a st
      | Inr st' \<Rightarrow> st')"

definition try_appends :: "string \<Rightarrow> attempt list \<Rightarrow> app \<Rightarrow> app" where
  "try_appends today as st = fold (try_append today) as st"

text \<open>The validation rules of \<^verbatim>\<open>addRound\<close> read on the fields of an attempt.\<close>

definition attempt_rejected :: "attempt \<Rightarrow> bool" where
  "attempt_rejected a =
     ((a_mode a = Normal \<and> length (filter (\<lambda>i. i \<noteq> a_host a) (a_friends a)) > 2) \<or>
      (a_bid a < 80 \<and> a_bid a \<noteq> NO_BIDS_VALUE) \<or>
      (a_opponentScore a < 0 \<or> a_opponentScore a > 400))"

section \<open>Statistics\<close>

text \<open>The members of \<^verbatim>\<open>Object.prototype\<close>, which a read \<^verbatim>\<open>ob[k]\<close> finds when the
  object has no own property \<open>k\<close>. All of them are functions, but for \<^verbatim>\<open>__proto__\<close>,
  which reads as \<^verbatim>\<open>Object.prototype\<close> itself: truthy values that accept new
  properties.\<close>

definition proto_members :: "string list" where
  "proto_members =
     [''constructor'', ''__defineGetter__'', ''__defineSetter__'', ''hasOwnProperty'',
      ''__lookupGetter__'', ''__lookupSetter__'', ''isPrototypeOf'', ''propertyIsEnumerable'',
      ''toString'', ''valueOf'', ''__proto__'', ''toLocaleString'']"

text \<open>\<^verbatim>\<open>if (ob[k]) ob[k].field += ...\<close>: the entry changes when the table has the key.
  Otherwise the table stays as it is: either the test fails, or it finds a member of
  \<^verbatim>\<open>Object.prototype\<close> and the assignment goes to that member.\<close>

definition obj_modify :: "string \<Rightarrow> ('v \<Rightarrow> 'v) \<Rightarrow> 'v js_object \<Rightarrow> 'v js_object" where
  "obj_modify k f ob = (case obj_get ob k of None \<Rightarrow> ob | Some v \<Rightarrow> obj_set k (f v) ob)"

text \<open>\<^verbatim>\<open>ob[k].field += ...\<close> without the test. When the table does not have the key,
  the read finds a member of \<^verbatim>\<open>Object.prototype\<close>, and the assignment goes to that
  member and leaves the table as it is, or it finds \<^verbatim>\<open>undefined\<close>, and reading a field
  of \<^verbatim>\<open>undefined\<close> throws.\<close>

definition obj_modify_strict ::
  "string \<Rightarrow> ('v \<Rightarrow> 'v) \<Rightarrow> 'v js_object \<Rightarrow> js_error + 'v js_object" where
  "obj_modify_strict k f ob =
     (case obj_get ob k of
        None \<Rightarrow> if k \<in> set proto_members then Inr ob else Inl TypeError
      | Some v \<Rightarrow> Inr (obj_set k (f v) ob))"

text \<open>A \<^verbatim>\<open>forEach\<close> whose body may throw.\<close>

fun for_each :: "('a \<Rightarrow> 's \<Rightarrow> js_error + 's) \<Rightarrow> 'a list \<Rightarrow> 's \<Rightarrow> js_error + 's" where
  "for_each body [] s = Inr s"
| "for_each body (x # xs) s =
     (case body x s of Inl e \<Rightarrow> Inl e | Inr s' \<Rightarrow> for_each body xs s')"

text \<open>The values of the slots that \<^verbatim>\<open>reduce\<close> visits: holes are skipped.\<close>

definition visited :: "slot list \<Rightarrow> jsval list" where
  "visited xs = map slot_value (filter (\<lambda>s. s \<noteq> Hole) xs)"

text \<open>The counters of \<^verbatim>\<open>playerStats\<close> in \<^verbatim>\<open>enhancedStats\<close> (prefixed \<open>ps_\<close>), the
  entries of \<^verbatim>\<open>playerRankings\<close> (the source's names) and the counters of
  \<^verbatim>\<open>roleStats\<close> (prefixed \<open>rs_\<close>).\<close>

record player_stats =
  ps_totalScore :: rat
  ps_gamesPlayed :: nat
  ps_hosted :: nat
  ps_hostWins :: nat
  ps_friendGames :: nat
  ps_friendWins :: nat

record ranking =
  name :: string
  totalScore :: int
  gamesPlayed :: nat
  hosted :: nat
  hostWins :: nat
  hostRate :: int
  friendGames :: nat
  friendWins :: nat
  friendRate :: int

record enhanced_stats =
  totalRounds :: nat
  playerRankings :: "ranking list"
  bestHost :: "ranking option"
  bestFriend :: "ranking option"
  mostGamesPlayed :: "ranking option"

record role_stats =
  rs_hosted :: nat
  rs_hostWins :: nat
  rs_friendGames :: nat
  rs_friendWins :: nat
  rs_played :: nat

definition init_playerStats :: "slot list \<Rightarrow> player_stats js_object" where
  "init_playerStats roster =
     fold (\<lambda>p acc. obj_set (to_key p)
             \<lparr>ps_totalScore = 0, ps_gamesPlayed = 0, ps_hosted = 0, ps_hostWins = 0,
              ps_friendGames = 0, ps_friendWins = 0\<rparr> acc)
       (visited roster) []"

definition host_side_won :: "round_rec \<Rightarrow> bool" where
  "host_side_won r = (rwinner r = ''Host'' \<or> rwinner r = ''Host Team'')"

text \<open>The body of \<^verbatim>\<open>allRounds.forEach\<close>, lines 130 to 158. The score that the round
  stores is the double \<open>fl score\<close>, and \<^verbatim>\<open>+=\<close> rounds the sum to a double.\<close>

definition count_round :: "round_rec \<Rightarrow> player_stats js_object \<Rightarrow> player_stats js_object" where
  "count_round r playerStats =
     (let ps1 = fold (\<lambda>p acc. obj_modify (to_key p)
                        (\<lambda>s. s\<lparr>ps_gamesPlayed := ps_gamesPlayed s + 1\<rparr>) acc)
                  (rplayers r) playerStats;
          ps2 = fold (\<lambda>(nm, score) acc. obj_modify nm
                        (\<lambda>s. s\<lparr>ps_totalScore := fl (ps_totalScore s + fl score)\<rparr>) acc)
                  (rscores r) ps1;
          ps3 = obj_modify (to_key (rhost r))
                  (\<lambda>s. let s' = s\<lparr>ps_hosted := ps_hosted s + 1\<rparr> in
                       if host_side_won r then s'\<lparr>ps_hostWins := ps_hostWins s' + 1\<rparr> else s')
                  ps2
      in fold (\<lambda>friend acc. obj_modify (to_key friend)
                 (\<lambda>s. let s' = s\<lparr>ps_friendGames := ps_friendGames s + 1\<rparr> in
                      if host_side_won r then s'\<lparr>ps_friendWins := ps_friendWins s' + 1\<rparr> else s')
                 acc)
           (rfriends r) ps3)"

text \<open>The entry of \<^verbatim>\<open>playerRankings\<close> for an entry of the table, lines 162 to 172.
  The quotient of the two counters and its product with 100 are doubles, and
  \<^verbatim>\<open>Math.round\<close> rounds the double that results.\<close>

definition to_ranking :: "string \<times> player_stats \<Rightarrow> ranking" where
  "to_ranking e =
     (case e of (nm, stats) \<Rightarrow>
       \<lparr>name = nm,
        totalScore = js_round (ps_totalScore stats),
        gamesPlayed = ps_gamesPlayed stats,
        hosted = ps_hosted stats,
        hostWins = ps_hostWins stats,
        hostRate = (if ps_hosted stats > 0
                    then js_round
                           (fl (fl (of_nat (ps_hostWins stats) / of_nat (ps_hosted stats)) * 100))
                    else 0),
        friendGames = ps_friendGames stats,
        friendWins = ps_friendWins stats,
        friendRate = (if ps_friendGames stats > 0
                      then js_round
                             (fl (fl (of_nat (ps_friendWins stats) / of_nat (ps_friendGames stats))
                                    * 100))
                      else 0)\<rparr>)"

text \<open>\<^verbatim>\<open>xs.sort((a, b) => key(b) - key(a))\<close>: larger keys first. The sort of
  JavaScript is stable, so its result is the one that the stable insertion sort gives.\<close>

definition sort_desc :: "('a \<Rightarrow> int) \<Rightarrow> 'a list \<Rightarrow> 'a list" where
  "sort_desc key xs = sort_key (\<lambda>x. - key x) xs"

text \<open>\<^verbatim>\<open>xs[0]\<close>\<close>

definition first :: "'a list \<Rightarrow> 'a option" where
  "first xs = (case xs of [] \<Rightarrow> None | x # _ \<Rightarrow> Some x)"

definition all_rounds :: "session js_object \<Rightarrow> round_rec list" where
  "all_rounds gd = concat (map (\<lambda>e. rounds (snd e)) gd)"

definition playerStats_of :: "session js_object \<Rightarrow> slot list \<Rightarrow> player_stats js_object" where
  "playerStats_of gd roster = fold count_round (all_rounds gd) (init_playerStats roster)"

text \<open>
  \<^verbatim>\<open>enhancedStats\<close>, lines 113 to 187. \<open>ranked\<close> is \<^verbatim>\<open>playerRankings\<close> as line 173
  leaves it. \<^verbatim>\<open>filter\<close> makes a new array, so the sorts of lines 176 and 177 leave
  \<^verbatim>\<open>playerRankings\<close> alone; the \<^verbatim>\<open>sort\<close> of line 178 is applied to
  \<^verbatim>\<open>playerRankings\<close> itself and sorts it in place, so the array that is returned is
  \<open>resorted\<close>.
\<close>

definition enhancedStats :: "session js_object \<Rightarrow> slot list \<Rightarrow> enhanced_stats" where
  "enhancedStats gd roster =
     (let allRounds = all_rounds gd;
          playerStats = playerStats_of gd roster;
          ranked = sort_desc totalScore (map to_ranking playerStats);
          best_host = first (sort_desc hostRate (filter (\<lambda>p. hosted p \<ge> 3) ranked));
          best_friend = first (sort_desc friendRate (filter (\<lambda>p. friendGames p \<ge> 3) ranked));
          resorted = sort_desc (\<lambda>p. int (gamesPlayed p)) ranked
      in \<lparr>totalRounds = length allRounds,
          playerRankings = resorted,
          bestHost = best_host,
          bestFriend = best_friend,
          mostGamesPlayed = first resorted\<rparr>)"

text \<open>\<^verbatim>\<open>roleStats\<close>, lines 292 to 311. The set \<^verbatim>\<open>team\<close> is built and never read.\<close>

definition init_roleStats :: "slot list \<Rightarrow> role_stats js_object" where
  "init_roleStats roster =
     fold (\<lambda>p acc. obj_set (to_key p)
             \<lparr>rs_hosted = 0, rs_hostWins = 0, rs_friendGames = 0, rs_friendWins = 0,
              rs_played = 0\<rparr> acc)
       (visited roster) []"

definition role_round :: "round_rec \<Rightarrow> role_stats js_object \<Rightarrow> js_error + role_stats js_object" where
  "role_round r rs =
     (case for_each (\<lambda>p acc. obj_modify_strict (to_key p)
                      (\<lambda>s. s\<lparr>rs_played := rs_played s + 1\<rparr>) acc) (rplayers r) rs of
        Inl e \<Rightarrow> Inl e
      | Inr rs1 \<Rightarrow>
         (case obj_modify_strict (to_key (rhost r))
                 (\<lambda>s. s\<lparr>rs_hosted := rs_hosted s + 1\<rparr>) rs1 of
            Inl e \<Rightarrow> Inl e
          | Inr rs2 \<Rightarrow>
             (case (if host_side_won r
                    then obj_modify_strict (to_key (rhost r))
                           (\<lambda>s. s\<lparr>rs_hostWins := rs_hostWins s + 1\<rparr>) rs2
                    else Inr rs2) of
                Inl e \<Rightarrow> Inl e
              | Inr rs3 \<Rightarrow>
                 for_each
                   (\<lambda>f acc.
                      case obj_modify_strict (to_key f)
                             (\<lambda>s. s\<lparr>rs_friendGames := rs_friendGames s + 1\<rparr>) acc of
                        Inl e \<Rightarrow> Inl e
                      | Inr acc1 \<Rightarrow>
                          if host_side_won r
                          then obj_modify_strict (to_key f)
                                 (\<lambda>s. s\<lparr>rs_friendWins := rs_friendWins s + 1\<rparr>) acc1
                          else Inr acc1)
                   (rfriends r) rs3)))"

definition roleStats :: "slot list \<Rightarrow> round_rec list \<Rightarrow> js_error + role_stats js_object" where
  "roleStats roster rs = for_each role_round rs (init_roleStats roster)"





text \<open>The keys that the statistics tables are given for a roster.\<close>

definition roster_keys :: "slot list \<Rightarrow> string set" where
  "roster_keys roster = set (map to_key (visited roster))"



section \<open>Example sessions\<close>

text \<open>
  Two days, three attempts (the third with a bid of 70, which the validation rejects), and
  states that the tracker reaches from its initial one. In \<open>renamed_host\<close> the host of the
  round of the day has been renamed. In \<open>second_day_host_renamed\<close> and
  \<open>second_day_played\<close> the tracker has been left open until the next day: the Today button
  selects the new date, a player is renamed in the new session before any round is played
  in it, and in \<open>second_day_played\<close> the renamed player then hosts a round.
\<close>

definition day :: string where
  "day = ''Mon Nov 02 2026''"

definition next_day :: string where
  "next_day = ''Tue Nov 03 2026''"

definition round_a :: attempt where
  "round_a = \<lparr>a_mode = Normal, a_host = 0, a_friends = [], a_bid = 150,
              a_opponentScore = 100, a_now = ''1''\<rparr>"

definition round_b :: attempt where
  "round_b = \<lparr>a_mode = Normal, a_host = 1, a_friends = [], a_bid = 150,
              a_opponentScore = 0, a_now = ''2''\<rparr>"

definition round_low_bid :: attempt where
  "round_low_bid = \<lparr>a_mode = Normal, a_host = 0, a_friends = [], a_bid = 70,
                    a_opponentScore = 100, a_now = ''3''\<rparr>"

definition one_round :: app where
  "one_round = try_append day round_a (initial_app day)"

definition renamed_host :: app where
  "renamed_host = onRename 0 ''Al'' one_round"


text \<open>In \<open>member_name_host\<close> the first player is given the name \<^verbatim>\<open>toString\<close>,
  hosts the round of the day and is renamed again.\<close>

definition member_name_host :: app where
  "member_name_host =
     onRename 0 ''Al'' (try_append day round_a (onRename 0 ''toString'' (initial_app day)))"

definition second_day_played :: app where
  "second_day_played =
     try_append next_day round_b (onRename 1 ''B'' (setSelectedDate next_day one_round))"

text \<open>
  A day of seven rounds. The first player hosts three rounds with the third player as
  friend and wins two of them, with no point for the opponents; the second player hosts
  four rounds with the fourth player as friend and wins three of them, the opponents
  scoring 149 against a bid of 150. The first player ends with the higher total score and
  the lower rate of hosted rounds won.
\<close>

definition host_1_wins :: attempt where
  "host_1_wins = \<lparr>a_mode = Normal, a_host = 0, a_friends = [2], a_bid = 150,
                  a_opponentScore = 0, a_now = ''4''\<rparr>"

definition host_1_loses :: attempt where
  "host_1_loses = \<lparr>a_mode = Normal, a_host = 0, a_friends = [2], a_bid = 150,
                   a_opponentScore = 150, a_now = ''5''\<rparr>"

definition host_2_wins :: attempt where
  "host_2_wins = \<lparr>a_mode = Normal, a_host = 1, a_friends = [3], a_bid = 150,
                  a_opponentScore = 149, a_now = ''6''\<rparr>"

definition host_2_loses :: attempt where
  "host_2_loses = \<lparr>a_mode = Normal, a_host = 1, a_friends = [3], a_bid = 150,
                   a_opponentScore = 150, a_now = ''7''\<rparr>"

definition seven_rounds :: app where
  "seven_rounds =
     try_appends day
       [host_1_wins, host_1_wins, host_1_loses,
        host_2_wins, host_2_wins, host_2_wins, host_2_loses]
       (initial_app day)"

section \<open>Properties of the scoring\<close>

subsection \<open>Objects as insertion-ordered dictionaries\<close>

lemma obj_get_set: "obj_get (obj_set k v ob) k' = (if k' = k then Some v else obj_get ob k')"
  by (simp add: obj_get_def obj_set_def update_conv')

lemma obj_get_fold_set:
  "obj_get (fold (\<lambda>p ob. obj_set p v ob) ks ob0) k = (if k \<in> set ks then Some v else obj_get ob0 k)"
  by (induction ks arbitrary: ob0) (auto simp: obj_get_set)

lemma obj_get_zero_scores:
  "obj_get (zero_scores ks) k = (if k \<in> set ks then Some 0 else None)"
  by (simp add: zero_scores_def obj_get_fold_set) (simp add: obj_get_def)

lemma obj_get_assign_each:
  "obj_get (assign_each e ks sc) k = (if k \<in> set ks then Some e else obj_get sc k)"
  by (simp add: assign_each_def obj_get_fold_set)

lemma sum_obj_set:
  fixes v :: rat
  shows "sum_list (map snd (obj_set k v ob)) =
    (case obj_get ob k of None \<Rightarrow> sum_list (map snd ob) + v | Some w \<Rightarrow> sum_list (map snd ob) - w + v)"
  unfolding obj_set_def obj_get_def
  by (induction ob) (auto split: option.splits simp: algebra_simps)

lemma set_obj_set_subset: "set (obj_set k v ob) \<subseteq> insert (k, v) (set ob)"
  unfolding obj_set_def by (induction ob) auto

lemma fold_set_values:
  "\<forall>kv\<in>set ob0. snd kv = v \<Longrightarrow> \<forall>kv\<in>set (fold (\<lambda>p ob. obj_set p v ob) ks ob0). snd kv = v"
proof (induction ks arbitrary: ob0)
  case Nil
  then show ?case by simp
next
  case (Cons k ks)
  have "\<forall>kv\<in>set (obj_set k v ob0). snd kv = v"
    using Cons.prems set_obj_set_subset[of k v ob0] by auto
  from Cons.IH[OF this] show ?case by simp
qed

lemma sum_list_all_zero: "\<forall>kv\<in>set ob. snd kv = (0::rat) \<Longrightarrow> sum_list (map snd ob) = 0"
  by (induction ob) auto

lemma sum_zero_scores: "sum_list (map snd (zero_scores ks)) = 0"
proof -
  have "\<forall>kv\<in>set (zero_scores ks). snd kv = 0"
    unfolding zero_scores_def by (rule fold_set_values) simp
  then show ?thesis by (rule sum_list_all_zero)
qed

subsection \<open>Rosters of names\<close>

lemma to_key_Some: "to_key (Some s) = s"
  by (simp add: to_key_def)

lemma slot_value_named: "slot_value (named n) = Some n"
  by (simp add: slot_value_def named_def)

lemma Hole_notin_named: "Hole \<notin> set (map named ns)"
  by (auto simp: named_def)

lemma keys_of_named: "map ((\<lambda>p. to_key (slot_value p)) \<circ> named) ns = ns"
  by (simp add: comp_def slot_value_named to_key_Some)

lemma values_of_named: "map (slot_value \<circ> named) ns = map Some ns"
  by (simp add: comp_def slot_value_named)

lemma js_nth_named:
  "js_nth (map named ns) i = (if i < length ns then Some (ns ! i) else None)"
  by (simp add: js_nth_def slot_value_named)

lemmas roster_simps = Hole_notin_named keys_of_named values_of_named js_nth_named to_key_Some

lemma opponents_of_named:
  "map to_key (filter P (map Some ns)) = filter (\<lambda>n. P (Some n)) ns"
  by (induction ns) (auto simp: to_key_Some)

lemma floor_rat_numeral_div: "\<lfloor>(numeral a :: rat) / numeral b\<rfloor> = numeral a div numeral b"
  using floor_divide_of_int_eq[of "numeral a" "numeral b", where ?'a = rat] by simp


subsection \<open>The winner\<close>

text \<open>
  C2. On a roster without holes \<^verbatim>\<open>calculateScores\<close> returns, and the host side wins
  exactly when \<open>opponentScore < bid\<close>: the label is \<^verbatim>\<open>Host\<close> in 1v5 mode and
  \<^verbatim>\<open>Host Team\<close> in Normal mode then, and \<^verbatim>\<open>Opponents\<close> otherwise; with
  \<open>opponentScore = bid\<close> the opponents win.
\<close>

theorem calculateScores_winner_label:
  "Hole \<notin> set ps \<Longrightarrow>
   \<exists>r. calculateScores m ps hostIdx friendIdxs b opp = Inr r \<and>
       winner r = (if opp < b
                   then (if m = OneVFive then ''Host'' else ''Host Team'')
                   else ''Opponents'')"
  by (simp add: calculateScores_def Let_def)

theorem calculateScores_winner_label_witness:
  "Hole \<notin> set defaultPlayers \<and>
   (\<exists>r. calculateScores Normal defaultPlayers 0 [] 150 150 = Inr r \<and> winner r = ''Opponents'')"
  using calculateScores_winner_label[of defaultPlayers Normal 0 "[]" 150 150]
  by (simp add: defaultPlayers_def named_def)

subsection \<open>The 1v5 mode\<close>

text \<open>
  C3. In 1v5 mode, on a roster of six distinct names with the host among them and no
  friends: when \<open>opponentScore < bid\<close> the winner is \<^verbatim>\<open>Host\<close>, the host's score is 400
  and every other player's is 0; otherwise the winner is \<^verbatim>\<open>Opponents\<close>, the host's
  score is 0 and each of the five others has \<open>opponentScore * 1.5 / 5\<close>.
\<close>

theorem calculateScores_1v5:
  assumes "distinct ns" "length ns = 6" "hostIdx < 6"
  shows "\<exists>r. calculateScores OneVFive (map named ns) hostIdx [] b opp = Inr r \<and>
     (if opp < b
      then winner r = ''Host'' \<and>
           (\<forall>i<6. obj_get (scores r) (ns ! i) = Some (if i = hostIdx then 400 else 0))
      else winner r = ''Opponents'' \<and>
           (\<forall>i<6. obj_get (scores r) (ns ! i) =
                  Some (if i = hostIdx then 0 else of_int opp * (3 / 2) / 5)))"
  using assms
  by (simp add: calculateScores_def Let_def obj_get_set obj_get_assign_each obj_get_zero_scores
        roster_simps opponents_of_named nth_eq_iff_index_eq del: set_map)


theorem calculateScores_1v5_witness: "\<exists>r. calculateScores OneVFive defaultPlayers 0 [] 200 210 = Inr r \<and>
      winner r = ''Opponents'' \<and>
      obj_get (scores r) ''Player 1'' = Some 0 \<and>
      obj_get (scores r) ''Player 2'' = Some 63 \<and>
      obj_get (scores r) ''Player 6'' = Some 63"
proof -
  let ?ns = "[''Player 1'', ''Player 2'', ''Player 3'', ''Player 4'', ''Player 5'', ''Player 6'']"
  have "distinct ?ns" and "length ?ns = 6" and "(0::nat) < 6"
    by simp_all
  from calculateScores_1v5[OF this, of 200 210]
  obtain r where r: "calculateScores OneVFive (map named ?ns) 0 [] 200 210 = Inr r"
    and w: "winner r = ''Opponents''"
    and sc: "\<And>i. i < 6 \<Longrightarrow> obj_get (scores r) (?ns ! i) = Some (if i = 0 then 0 else 63)"
    by auto
  from sc[of 0] sc[of 1] sc[of 5] r w show ?thesis
    by (simp add: defaultPlayers_def)
qed


subsection \<open>The split among the host team\<close>

text \<open>
  C1. In Normal mode, on a roster of distinct names, with the host and the friends at
  different positions of it and \<open>opponentScore < bid\<close>: the scores of the round add up to
  \<open>400 - opponentScore\<close> exactly. With no friend the host has all of it; with one friend
  the host has the rounded three quarters and the friend the rest; with two friends the host
  has the rounded half, the first friend the rounded half of the rest, and the second
  friend what remains. (Nothing here needs the opponent score to lie within 0 and 400.)
\<close>

theorem calculateScores_exact_sum:
  assumes "distinct ns" "hostIdx < length ns" "\<forall>i\<in>set friendIdxs. i < length ns"
    "distinct friendIdxs" "hostIdx \<notin> set friendIdxs" "opp < b"
  shows "\<exists>r. calculateScores Normal (map named ns) hostIdx friendIdxs b opp = Inr r \<and>
     sum_list (map snd (scores r)) = of_int (400 - opp) \<and>
     (case friendIdxs of
        [] \<Rightarrow> obj_get (scores r) (ns ! hostIdx) = Some (of_int (400 - opp))
      | [f] \<Rightarrow> (\<exists>h g. obj_get (scores r) (ns ! hostIdx) = Some h \<and>
                  obj_get (scores r) (ns ! f) = Some g \<and>
                  h = of_int (js_round (of_int (400 - opp) * (3 / 4))) \<and>
                  g = of_int (400 - opp) - h \<and>
                  h + g = of_int (400 - opp))
      | f1 # f2 # _ \<Rightarrow> (\<exists>h g1 g2. obj_get (scores r) (ns ! hostIdx) = Some h \<and>
                  obj_get (scores r) (ns ! f1) = Some g1 \<and>
                  obj_get (scores r) (ns ! f2) = Some g2 \<and>
                  h = of_int (js_round (of_int (400 - opp) * (1 / 2))) \<and>
                  g1 = of_int (js_round ((of_int (400 - opp) - h) / 2)) \<and>
                  g2 = of_int (400 - opp) - h - g1 \<and>
                  h + g1 + g2 = of_int (400 - opp)))"
proof (cases friendIdxs)
  case Nil
  with assms show ?thesis
    by (simp add: calculateScores_def Let_def obj_get_set obj_get_zero_scores roster_simps
        sum_obj_set sum_zero_scores del: set_map)
next
  case (Cons f1 fs)
  note outer = Cons
  show ?thesis
  proof (cases fs)
    case Nil
    with outer assms show ?thesis
      by (simp add: calculateScores_def Let_def obj_get_set obj_get_zero_scores roster_simps
        sum_obj_set sum_zero_scores nth_eq_iff_index_eq del: set_map)
  next
    case (Cons f2 fs')
    with outer assms show ?thesis
      by (simp add: calculateScores_def Let_def obj_get_set obj_get_zero_scores roster_simps
        sum_obj_set sum_zero_scores nth_eq_iff_index_eq del: set_map)
  qed
qed


theorem calculateScores_exact_sum_witness:
  "\<exists>r. calculateScores Normal defaultPlayers 0 [1, 2] 150 135 = Inr r \<and>
   sum_list (map snd (scores r)) = 265 \<and>
   obj_get (scores r) ''Player 1'' = Some 133 \<and>
   obj_get (scores r) ''Player 2'' = Some 66 \<and>
   obj_get (scores r) ''Player 3'' = Some 66"
  using calculateScores_exact_sum[of "[''Player 1'', ''Player 2'', ''Player 3'', ''Player 4'', ''Player 5'', ''Player 6'']" 0 "[1, 2]" 135 150]
  by (simp add: defaultPlayers_def js_round_def floor_rat_numeral_div)

subsection \<open>The two copies\<close>

text \<open>
  C10. The copy of \<^verbatim>\<open>calculateScores\<close> in \<^verbatim>\<open>src/unnamed/part_001\<close> and the one in
  \<^verbatim>\<open>src/src/App.jsx\<close> return the same result (scores, winner and distribution text),
  or throw alike, on every input.
\<close>

theorem calculateScores_copies_agree:
  "calculateScores_part_001 m ps hostIdx friendIdxs b opp =
   calculateScores m ps hostIdx friendIdxs b opp"
  by (simp add: calculateScores_part_001_def calculateScores_def)


section \<open>Properties of the sessions\<close>

lemma getCurrent_updateCurrent: "getCurrent (updateCurrent f st) = f (getCurrent st)"
  by (simp add: getCurrent_def updateCurrent_def obj_get_set Let_def)

lemma selectedDate_updateCurrent: "selectedDate (updateCurrent f st) = selectedDate st"
  by (simp add: updateCurrent_def Let_def)

lemma getCurrent_resetNewGameForm: "getCurrent (resetNewGameForm st) = getCurrent st"
  by (simp add: getCurrent_def resetNewGameForm_def)

lemma selectedDate_resetNewGameForm: "selectedDate (resetNewGameForm st) = selectedDate st"
  by (simp add: resetNewGameForm_def)

lemma getCurrent_fill_form: "getCurrent (fill_form a st) = getCurrent st"
  by (simp add: getCurrent_def fill_form_def)

lemma selectedDate_fill_form: "selectedDate (fill_form a st) = selectedDate st"
  by (simp add: fill_form_def)

lemma rejected_fill_form: "rejected (fill_form a st) = attempt_rejected a"
  by (simp add: rejected_def attempt_rejected_def fill_form_def Let_def)

lemma calculateScores_returns:
  "Hole \<notin> set ps \<Longrightarrow> \<exists>r. calculateScores m ps h fs b opp = Inr r"
  by (simp add: calculateScores_def Let_def)

lemma addRound_rejected: "rejected st \<Longrightarrow> addRound today now st = Inr st"
  by (auto simp: addRound_def rejected_def Let_def)

lemma addRound_other_date: "selectedDate st \<noteq> today \<Longrightarrow> addRound today now st = Inr st"
  by (simp add: addRound_def)

lemma addRound_accepted:
  assumes "selectedDate st = today" "Hole \<notin> set (players (getCurrent st))" "\<not> rejected st"
  shows "\<exists>st' r. addRound today now st = Inr st' \<and>
           selectedDate st' = today \<and>
           players (getCurrent st') = players (getCurrent st) \<and>
           rounds (getCurrent st') = rounds (getCurrent st) @ [r] \<and>
           round_no r = currentRound (getCurrent st) \<and>
           currentRound (getCurrent st') = currentRound (getCurrent st) + 1"
proof -
  from calculateScores_returns[OF assms(2)]
  obtain res where "calculateScores (mode st) (players (getCurrent st)) (host st)
      (filter (\<lambda>i. i \<noteq> host st) (friends st)) (bid st) (opponentScore st) = Inr res"
    by blast
  with assms show ?thesis
    by (simp add: addRound_def rejected_def Let_def getCurrent_updateCurrent
        getCurrent_resetNewGameForm selectedDate_updateCurrent selectedDate_resetNewGameForm)
qed


subsection \<open>Validation\<close>

text \<open>
  C4. With the selected date today and a roster without holes, \<^verbatim>\<open>addRound\<close> gives the
  state back unchanged (no round, the same rounds list and counter, no result stored)
  exactly when the mode is Normal and more than two friends remain after the host has been
  removed from the selection, or the bid is below 80 and not 160, or the opponent score is
  below 0 or above 400. Otherwise it returns a state whose rounds list is the old one with
  one round added, numbered by the old counter, and whose counter is one more.
\<close>

theorem addRound_rejects_exactly:
  assumes "selectedDate st = today" "Hole \<notin> set (players (getCurrent st))"
  shows "(if (mode st = Normal \<and> 2 < length (filter (\<lambda>i. i \<noteq> host st) (friends st))) \<or>
             (bid st < 80 \<and> bid st \<noteq> 160) \<or>
             opponentScore st < 0 \<or> 400 < opponentScore st
          then addRound today now st = Inr st
          else \<exists>st' r. addRound today now st = Inr st' \<and>
                 rounds (getCurrent st') = rounds (getCurrent st) @ [r] \<and>
                 round_no r = currentRound (getCurrent st) \<and>
                 currentRound (getCurrent st') = currentRound (getCurrent st) + 1)"
proof (cases "rejected st")
  case True
  then show ?thesis
    using addRound_rejected[of st today now]
    by (auto simp: rejected_def Let_def NO_BIDS_VALUE_def)
next
  case False
  from addRound_accepted[OF assms False, of now] False show ?thesis
    by (auto simp: rejected_def Let_def NO_BIDS_VALUE_def)
qed


theorem addRound_rejects_exactly_witness:
  "addRound day ''3'' (fill_form round_low_bid (initial_app day)) =
     Inr (fill_form round_low_bid (initial_app day)) \<and>
   (\<exists>st'. addRound day ''1'' (fill_form round_a (initial_app day)) = Inr st' \<and>
      map round_no (rounds (getCurrent st')) = [1] \<and>
      currentRound (getCurrent st') = 2)"
proof -
  let ?bad = "fill_form round_low_bid (initial_app day)"
  let ?ok = "fill_form round_a (initial_app day)"
  have cur: "getCurrent ?bad = default_session" "getCurrent ?ok = default_session"
    by (simp_all add: getCurrent_def fill_form_def initial_app_def obj_get_def)
  have holes: "Hole \<notin> set (players default_session)"
    by (simp add: default_session_def defaultPlayers_def named_def)
  have d: "selectedDate ?bad = day" "selectedDate ?ok = day"
    by (simp_all add: fill_form_def initial_app_def)
  from addRound_rejects_exactly[of ?bad day "''3''"] d holes cur
  have 1: "addRound day ''3'' ?bad = Inr ?bad"
    by (simp add: fill_form_def round_low_bid_def initial_app_def)
  from addRound_rejects_exactly[of ?ok day "''1''"] d holes cur
  have "\<exists>st' r. addRound day ''1'' ?ok = Inr st' \<and>
          rounds (getCurrent st') = rounds default_session @ [r] \<and>
          round_no r = currentRound default_session \<and>
          currentRound (getCurrent st') = currentRound default_session + 1"
    by (simp add: fill_form_def round_a_def initial_app_def)
  then have 2: "\<exists>st'. addRound day ''1'' ?ok = Inr st' \<and>
      map round_no (rounds (getCurrent st')) = [1] \<and> currentRound (getCurrent st') = 2"
    by (auto simp: default_session_def)
  from 1 2 show ?thesis by simp
qed

subsection \<open>Round numbers\<close>

lemma try_append_step:
  assumes "selectedDate st = today" "Hole \<notin> set (players (getCurrent st))"
  shows "selectedDate (try_append today a st) = today \<and>
         players (getCurrent (try_append today a st)) = players (getCurrent st) \<and>
         (if attempt_rejected a
          then rounds (getCurrent (try_append today a st)) = rounds (getCurrent st) \<and>
               currentRound (getCurrent (try_append today a st)) = currentRound (getCurrent st)
          else map round_no (rounds (getCurrent (try_append today a st))) =
                 map round_no (rounds (getCurrent st)) @ [currentRound (getCurrent st)] \<and>
               currentRound (getCurrent (try_append today a st)) = currentRound (getCurrent st) + 1)"
proof (cases "attempt_rejected a")
  case True
  then have "addRound today (a_now a) (fill_form a st) = Inr (fill_form a st)"
    by (simp add: addRound_rejected rejected_fill_form)
  with True assms show ?thesis
    by (simp add: try_append_def getCurrent_fill_form selectedDate_fill_form)
next
  case False
  have "selectedDate (fill_form a st) = today"
    "Hole \<notin> set (players (getCurrent (fill_form a st)))"
    "\<not> rejected (fill_form a st)"
    using assms False by (simp_all add: getCurrent_fill_form selectedDate_fill_form rejected_fill_form)
  from addRound_accepted[OF this, of "a_now a"] False show ?thesis
    by (auto simp: try_append_def getCurrent_fill_form)
qed

lemma try_appends_numbering:
  assumes "selectedDate st = today" "Hole \<notin> set (players (getCurrent st))"
  shows "map round_no (rounds (getCurrent (try_appends today as st))) =
           map round_no (rounds (getCurrent st)) @
             [currentRound (getCurrent st) ..<
              currentRound (getCurrent st) + length (filter (\<lambda>a. \<not> attempt_rejected a) as)] \<and>
         currentRound (getCurrent (try_appends today as st)) =
           currentRound (getCurrent st) + length (filter (\<lambda>a. \<not> attempt_rejected a) as)"
  using assms
proof (induction as arbitrary: st)
  case Nil
  then show ?case by (simp add: try_appends_def)
next
  case (Cons a as)
  note step = try_append_step[OF Cons.prems, of a]
  have ok: "selectedDate (try_append today a st) = today"
    "Hole \<notin> set (players (getCurrent (try_append today a st)))"
    using step Cons.prems by simp_all
  note ih = Cons.IH[OF ok, unfolded try_appends_def]
  show ?case
  proof (cases "attempt_rejected a")
    case True
    with step ih show ?thesis by (simp add: try_appends_def)
  next
    case False
    have "[currentRound (getCurrent st) ..< currentRound (getCurrent st) + Suc n] =
          currentRound (getCurrent st) # [Suc (currentRound (getCurrent st)) ..<
             Suc (currentRound (getCurrent st)) + n]" for n
      by (simp add: upt_conv_Cons)
    with False step ih show ?thesis by (simp add: try_appends_def)
  qed
qed



text \<open>
  C5. After any sequence of append attempts on the initial session of a day, the rounds
  stored carry the numbers 1 to N in order, N being the number of attempts that passed the
  validation, and the counter is N + 1; an attempt that is rejected leaves the session
  (its rounds and its counter) as it was, whatever the state.
\<close>

theorem round_numbers_without_gaps:
  "map round_no (rounds (getCurrent (try_appends today as (initial_app today)))) =
     [1 ..< Suc (length (filter (\<lambda>a. \<not> attempt_rejected a) as))] \<and>
   currentRound (getCurrent (try_appends today as (initial_app today))) =
     Suc (length (filter (\<lambda>a. \<not> attempt_rejected a) as)) \<and>
   (\<forall>a st. attempt_rejected a \<longrightarrow> getCurrent (try_append today a st) = getCurrent st)"
proof -
  have d: "selectedDate (initial_app today) = today"
    by (simp add: initial_app_def)
  have cur: "getCurrent (initial_app today) = default_session"
    by (simp add: getCurrent_def initial_app_def obj_get_def)
  have holes: "Hole \<notin> set (players (getCurrent (initial_app today)))"
    by (simp add: cur default_session_def defaultPlayers_def named_def)
  have rej: "getCurrent (try_append today a st) = getCurrent st" if "attempt_rejected a" for a st
    using that
    by (simp add: try_append_def addRound_rejected rejected_fill_form getCurrent_fill_form)
  from try_appends_numbering[OF d holes, of as] rej show ?thesis
    by (simp add: cur default_session_def)
qed

theorem round_numbers_without_gaps_witness:
  "map round_no (rounds (getCurrent
      (try_appends day [round_a, round_low_bid, round_b] (initial_app day)))) = [1, 2] \<and>
   currentRound (getCurrent
      (try_appends day [round_a, round_low_bid, round_b] (initial_app day))) = 3 \<and>
   getCurrent (try_append day round_low_bid one_round) = getCurrent one_round"
proof -
  have r: "attempt_rejected round_low_bid" "\<not> attempt_rejected round_a" "\<not> attempt_rejected round_b"
    by (simp_all add: attempt_rejected_def round_low_bid_def round_a_def round_b_def NO_BIDS_VALUE_def)
  from round_numbers_without_gaps[of day "[round_a, round_low_bid, round_b]"] r
  show ?thesis by (simp add: numeral_3_eq_3)
qed

subsection \<open>Renaming\<close>

lemma all_rounds_obj_set:
  "rounds v = rounds (case obj_get gd k of None \<Rightarrow> default_session | Some s \<Rightarrow> s) \<Longrightarrow>
   all_rounds (obj_set k v gd) = all_rounds gd"
  unfolding all_rounds_def obj_set_def obj_get_def
  by (induction gd) (auto simp: default_session_def)

lemma js_nth_array_set:
  "js_nth (array_set xs idx nm) j = (if j = idx then Some nm else js_nth xs j)"
  by (auto simp: js_nth_def array_set_def slot_value_def nth_append)

lemma js_nth_spread: "js_nth (spread xs) j = js_nth xs j"
  by (simp add: js_nth_def spread_def slot_value_def)


text \<open>
  C9. \<^verbatim>\<open>onRename\<close> leaves the rounds of the session and its counter as they were, and
  with them every recorded round (players, host, friends, scores) of every session; after
  it the roster reads the new name at the index and, at every other index, what it read
  before.
\<close>

theorem onRename_keeps_rounds:
  "rounds (getCurrent (onRename idx nm st)) = rounds (getCurrent st) \<and>
   currentRound (getCurrent (onRename idx nm st)) = currentRound (getCurrent st) \<and>
   all_rounds (gameData (onRename idx nm st)) = all_rounds (gameData st) \<and>
   js_nth (players (getCurrent (onRename idx nm st))) idx = Some nm \<and>
   (\<forall>j. j \<noteq> idx \<longrightarrow>
        js_nth (players (getCurrent (onRename idx nm st))) j = js_nth (players (getCurrent st)) j)"
  apply (simp add: onRename_def getCurrent_updateCurrent js_nth_array_set js_nth_spread)
  apply (simp add: updateCurrent_def Let_def all_rounds_obj_set)
  done


theorem onRename_keeps_rounds_witness:
  "map rhost (rounds (getCurrent renamed_host)) = [Some ''Player 1''] \<and>
   map rplayers (rounds (getCurrent renamed_host)) =
     [[Some ''Player 1'', Some ''Player 2'', Some ''Player 3'', Some ''Player 4'',
       Some ''Player 5'', Some ''Player 6'']] \<and>
   currentRound (getCurrent renamed_host) = 2 \<and>
   js_nth (players (getCurrent renamed_host)) 0 = Some ''Al'' \<and>
   js_nth (players (getCurrent renamed_host)) 1 = Some ''Player 2''"
proof -
  have before: "map rhost (rounds (getCurrent one_round)) = [Some ''Player 1'']"
    "map rplayers (rounds (getCurrent one_round)) =
       [[Some ''Player 1'', Some ''Player 2'', Some ''Player 3'', Some ''Player 4'',
         Some ''Player 5'', Some ''Player 6'']]"
    "currentRound (getCurrent one_round) = 2"
    "js_nth (players (getCurrent one_round)) 1 = Some ''Player 2''"
    by code_simp+
  from onRename_keeps_rounds[of 0 "''Al''" one_round] before
  show ?thesis by (simp add: renamed_host_def)
qed


section \<open>Properties of the statistics\<close>

subsection \<open>Counting in the tables\<close>

lemma obj_get_modify:
  "obj_get (obj_modify k f ob) k' = (if k' = k then map_option f (obj_get ob k) else obj_get ob k')"
  by (auto simp: obj_modify_def obj_get_set split: option.splits)

lemma keys_obj_set_present:
  "obj_get ob k = Some v \<Longrightarrow> map fst (obj_set k v' ob) = map fst ob"
  unfolding obj_get_def obj_set_def
  by (induction ob) (auto split: if_splits)

lemma keys_obj_modify: "map fst (obj_modify k f ob) = map fst ob"
  by (auto simp: obj_modify_def keys_obj_set_present split: option.splits)




lemma fold_modify_keys:
  "map fst (fold (\<lambda>x acc. obj_modify (key x) (f x) acc) xs ob) = map fst ob"
  by (induction xs arbitrary: ob) (simp_all add: keys_obj_modify)


lemma fold_modify_get:
  assumes "\<And>x s. h (f x s) = h s"
  shows "map_option h (obj_get (fold (\<lambda>x acc. obj_modify (key x) (f x) acc) xs ob) k) =
         map_option h (obj_get ob k)"
proof (induction xs arbitrary: ob)
  case Nil
  then show ?case by simp
next
  case (Cons x xs)
  have "map_option h (obj_get (obj_modify (key x) (f x) ob) k) = map_option h (obj_get ob k)"
    using assms by (cases "obj_get ob (key x)") (auto simp: obj_get_modify)
  with Cons.IH[of "obj_modify (key x) (f x) ob"] show ?case by simp
qed

lemma count_round_keys: "map fst (count_round r ps) = map fst ps"
  by (simp add: count_round_def Let_def fold_modify_keys keys_obj_modify case_prod_unfold)



lemma fold_count_round_keys: "map fst (fold count_round rs ps) = map fst ps"
  by (induction rs arbitrary: ps) (simp_all add: count_round_keys)


lemma keys_obj_set: "fst ` set (obj_set k v ob) = insert k (fst ` set ob)"
  unfolding obj_set_def by (induction ob) auto

lemma fold_obj_set_keys:
  "fst ` set (fold (\<lambda>p acc. obj_set (key p) v acc) xs ob) = key ` set xs \<union> fst ` set ob"
  by (induction xs arbitrary: ob) (simp_all add: keys_obj_set)



lemma init_playerStats_keys: "fst ` set (init_playerStats roster) = roster_keys roster"
  by (simp add: init_playerStats_def roster_keys_def fold_obj_set_keys)



subsection \<open>What a round adds to a counter\<close>

lemma fold_modify_field:
  fixes h :: "'v \<Rightarrow> nat"
  assumes "\<And>x s. h (f x s) = h s + c"
  shows "map_option h (obj_get (fold (\<lambda>x acc. obj_modify (key x) (f x) acc) xs ob) k) =
         map_option (\<lambda>n. n + c * count_list (map key xs) k) (map_option h (obj_get ob k))"
proof (induction xs arbitrary: ob)
  case Nil
  then show ?case by (simp add: option.map_ident)
next
  case (Cons x xs)
  have step: "map_option h (obj_get (obj_modify (key x) (f x) ob) k) =
      map_option (\<lambda>n. n + (if key x = k then c else 0)) (map_option h (obj_get ob k))"
    using assms by (cases "obj_get ob k") (auto simp: obj_get_modify)
  show ?case
    using Cons.IH[of "obj_modify (key x) (f x) ob"]
    by (simp add: step option.map_comp comp_def algebra_simps)
qed

lemma count_round_field:
  fixes h :: "player_stats \<Rightarrow> nat"
  assumes g: "\<And>s v. h (s\<lparr>ps_gamesPlayed := v\<rparr>) = h s"
    and t: "\<And>s v. h (s\<lparr>ps_totalScore := v\<rparr>) = h s"
    and hs: "\<And>s. h (let s' = s\<lparr>ps_hosted := ps_hosted s + 1\<rparr> in
                   if host_side_won r then s'\<lparr>ps_hostWins := ps_hostWins s' + 1\<rparr> else s')
              = h s + a"
    and fs: "\<And>s. h (let s' = s\<lparr>ps_friendGames := ps_friendGames s + 1\<rparr> in
                   if host_side_won r then s'\<lparr>ps_friendWins := ps_friendWins s' + 1\<rparr> else s')
              = h s + b"
  shows "map_option h (obj_get (count_round r ps) k) =
         map_option (\<lambda>n. n + ((if k = to_key (rhost r) then a else 0) +
                              b * count_list (map to_key (rfriends r)) k))
           (map_option h (obj_get ps k))"
proof -
  define ps1 where "ps1 = fold (\<lambda>p acc. obj_modify (to_key p)
                        (\<lambda>s. s\<lparr>ps_gamesPlayed := ps_gamesPlayed s + 1\<rparr>) acc) (rplayers r) ps"
  define ps2 where "ps2 = fold (\<lambda>e acc. obj_modify (fst e)
                        (\<lambda>s. s\<lparr>ps_totalScore := fl (ps_totalScore s + fl (snd e))\<rparr>) acc)
                      (rscores r) ps1"
  define ps3 where "ps3 = obj_modify (to_key (rhost r))
                  (\<lambda>s. let s' = s\<lparr>ps_hosted := ps_hosted s + 1\<rparr> in
                       if host_side_won r then s'\<lparr>ps_hostWins := ps_hostWins s' + 1\<rparr> else s')
                  ps2"
  have res: "count_round r ps = fold (\<lambda>friend acc. obj_modify (to_key friend)
                 (\<lambda>s. let s' = s\<lparr>ps_friendGames := ps_friendGames s + 1\<rparr> in
                      if host_side_won r then s'\<lparr>ps_friendWins := ps_friendWins s' + 1\<rparr> else s')
                 acc) (rfriends r) ps3"
    by (simp add: count_round_def ps1_def ps2_def ps3_def Let_def case_prod_unfold)
  have 1: "map_option h (obj_get ps1 k) = map_option h (obj_get ps k)"
    unfolding ps1_def
    using fold_modify_field[of h "\<lambda>p s. s\<lparr>ps_gamesPlayed := ps_gamesPlayed s + 1\<rparr>" 0 to_key
        "rplayers r" ps k] g
    by (simp add: option.map_ident)
  have 2: "map_option h (obj_get ps2 k) = map_option h (obj_get ps1 k)"
    unfolding ps2_def
    using fold_modify_field[of h "\<lambda>e s. s\<lparr>ps_totalScore := fl (ps_totalScore s + fl (snd e))\<rparr>" 0
        fst "rscores r" ps1 k] t
    by (simp add: option.map_ident)
  have 3: "map_option h (obj_get ps3 k) =
      map_option (\<lambda>n. n + (if k = to_key (rhost r) then a else 0)) (map_option h (obj_get ps2 k))"
    unfolding ps3_def
    using hs by (cases "obj_get ps2 k") (auto simp: obj_get_modify)
  have 4: "map_option h (obj_get (count_round r ps) k) =
      map_option (\<lambda>n. n + b * count_list (map to_key (rfriends r)) k) (map_option h (obj_get ps3 k))"
    unfolding res
    by (rule fold_modify_field) (rule fs)
  show ?thesis
    by (simp only: 4 3 2 1) (simp add: option.map_comp comp_def algebra_simps)
qed

lemma count_round_hosted:
  "map_option ps_hosted (obj_get (count_round r ps) k) =
   map_option (\<lambda>n. n + (if k = to_key (rhost r) then 1 else 0))
     (map_option ps_hosted (obj_get ps k))"
  using count_round_field[of ps_hosted r 1 0 ps k] by (simp add: Let_def)

lemma count_round_hostWins:
  "map_option ps_hostWins (obj_get (count_round r ps) k) =
   map_option (\<lambda>n. n + (if k = to_key (rhost r) \<and> host_side_won r then 1 else 0))
     (map_option ps_hostWins (obj_get ps k))"
  using count_round_field[of ps_hostWins r "if host_side_won r then 1 else 0" 0 ps k]
  by (simp add: Let_def cong: if_cong)

lemma count_round_friendGames:
  "map_option ps_friendGames (obj_get (count_round r ps) k) =
   map_option (\<lambda>n. n + count_list (map to_key (rfriends r)) k)
     (map_option ps_friendGames (obj_get ps k))"
  using count_round_field[of ps_friendGames r 0 1 ps k] by (simp add: Let_def)

lemma count_round_friendWins:
  "map_option ps_friendWins (obj_get (count_round r ps) k) =
   map_option (\<lambda>n. n + (if host_side_won r then count_list (map to_key (rfriends r)) k else 0))
     (map_option ps_friendWins (obj_get ps k))"
  using count_round_field[of ps_friendWins r 0 "if host_side_won r then 1 else 0" ps k]
  by (simp add: Let_def cong: if_cong)


lemma fold_count_round_field:
  fixes h :: "player_stats \<Rightarrow> nat"
  assumes "\<And>r ps. map_option h (obj_get (count_round r ps) k) =
                   map_option (\<lambda>n. n + d r) (map_option h (obj_get ps k))"
  shows "map_option h (obj_get (fold count_round rs ps) k) =
         map_option (\<lambda>n. n + sum_list (map d rs)) (map_option h (obj_get ps k))"
proof (induction rs arbitrary: ps)
  case Nil
  then show ?case by (simp add: option.map_ident)
next
  case (Cons r rs)
  show ?case
    using Cons.IH[of "count_round r ps"]
    by (simp add: assms option.map_comp comp_def algebra_simps)
qed

lemma sum_list_indicator:
  "(\<Sum>x\<leftarrow>xs. if P x then 1 else 0) = length (filter P xs)"
  by (induction xs) auto

lemma sum_list_filtered:
  fixes f :: "'a \<Rightarrow> nat"
  shows "(\<Sum>x\<leftarrow>xs. if P x then f x else 0) = (\<Sum>x\<leftarrow>filter P xs. f x)"
  by (induction xs) auto

lemma distinct_keys_obj_set: "distinct (map fst ob) \<Longrightarrow> distinct (map fst (obj_set k v ob))"
  by (simp add: obj_set_def distinct_update)

lemma distinct_keys_fold_obj_set:
  "distinct (map fst ob) \<Longrightarrow> distinct (map fst (fold (\<lambda>p acc. obj_set (key p) v acc) xs ob))"
  by (induction xs arbitrary: ob) (simp_all add: distinct_keys_obj_set)

lemma playerStats_keys:
  "distinct (map fst (playerStats_of gd roster)) \<and>
   fst ` set (playerStats_of gd roster) = roster_keys roster"
proof -
  have "map fst (playerStats_of gd roster) = map fst (init_playerStats roster)"
    by (simp add: playerStats_of_def fold_count_round_keys)
  moreover have "distinct (map fst (init_playerStats roster))"
    unfolding init_playerStats_def by (rule distinct_keys_fold_obj_set) simp
  ultimately show ?thesis
    using init_playerStats_keys[of roster]
    by (metis list.set_map)
qed

lemma obj_get_init_playerStats:
  "k \<in> roster_keys roster \<Longrightarrow>
   obj_get (init_playerStats roster) k =
     Some \<lparr>ps_totalScore = 0, ps_gamesPlayed = 0, ps_hosted = 0, ps_hostWins = 0,
          ps_friendGames = 0, ps_friendWins = 0\<rparr>"
  unfolding init_playerStats_def roster_keys_def
  using obj_get_fold_set[of "\<lparr>ps_totalScore = 0, ps_gamesPlayed = 0, ps_hosted = 0, ps_hostWins = 0,
          ps_friendGames = 0, ps_friendWins = 0\<rparr>" "map to_key (visited roster)" "[]" k]
  by (simp add: fold_map comp_def)

lemma playerStats_entry:
  assumes "(k, s) \<in> set (playerStats_of gd roster)"
  shows "k \<in> roster_keys roster \<and>
     ps_hosted s = length (filter (\<lambda>r. to_key (rhost r) = k) (all_rounds gd)) \<and>
     ps_hostWins s =
       length (filter (\<lambda>r. to_key (rhost r) = k \<and> host_side_won r) (all_rounds gd)) \<and>
     ps_friendGames s = (\<Sum>r\<leftarrow>all_rounds gd. count_list (map to_key (rfriends r)) k) \<and>
     ps_friendWins s =
       (\<Sum>r\<leftarrow>filter host_side_won (all_rounds gd). count_list (map to_key (rfriends r)) k)"
proof -
  from assms playerStats_keys[of gd roster] have k: "k \<in> roster_keys roster"
    by (metis fst_conv image_eqI)
  from assms playerStats_keys[of gd roster]
  have get: "obj_get (playerStats_of gd roster) k = Some s"
    by (simp add: obj_get_def)
  note init = obj_get_init_playerStats[OF k]
  have "map_option ps_hosted (obj_get (playerStats_of gd roster) k) =
      map_option (\<lambda>n. n + (\<Sum>r\<leftarrow>all_rounds gd. if k = to_key (rhost r) then 1 else 0))
        (map_option ps_hosted (obj_get (init_playerStats roster) k))"
    unfolding playerStats_of_def
    by (rule fold_count_round_field) (rule count_round_hosted)
  then have 1: "ps_hosted s = length (filter (\<lambda>r. to_key (rhost r) = k) (all_rounds gd))"
    by (simp add: get init sum_list_indicator eq_commute[of k])
  have "map_option ps_hostWins (obj_get (playerStats_of gd roster) k) =
      map_option (\<lambda>n. n + (\<Sum>r\<leftarrow>all_rounds gd.
                              if k = to_key (rhost r) \<and> host_side_won r then 1 else 0))
        (map_option ps_hostWins (obj_get (init_playerStats roster) k))"
    unfolding playerStats_of_def
    by (rule fold_count_round_field) (rule count_round_hostWins)
  then have 2: "ps_hostWins s =
      length (filter (\<lambda>r. to_key (rhost r) = k \<and> host_side_won r) (all_rounds gd))"
    by (simp add: get init sum_list_indicator eq_commute[of k])
  have "map_option ps_friendGames (obj_get (playerStats_of gd roster) k) =
      map_option (\<lambda>n. n + (\<Sum>r\<leftarrow>all_rounds gd. count_list (map to_key (rfriends r)) k))
        (map_option ps_friendGames (obj_get (init_playerStats roster) k))"
    unfolding playerStats_of_def
    by (rule fold_count_round_field) (rule count_round_friendGames)
  then have 3: "ps_friendGames s = (\<Sum>r\<leftarrow>all_rounds gd. count_list (map to_key (rfriends r)) k)"
    by (simp add: get init)
  have "map_option ps_friendWins (obj_get (playerStats_of gd roster) k) =
      map_option (\<lambda>n. n + (\<Sum>r\<leftarrow>all_rounds gd.
                  if host_side_won r then count_list (map to_key (rfriends r)) k else 0))
        (map_option ps_friendWins (obj_get (init_playerStats roster) k))"
    unfolding playerStats_of_def
    by (rule fold_count_round_field) (rule count_round_friendWins)
  then have 4: "ps_friendWins s =
      (\<Sum>r\<leftarrow>filter host_side_won (all_rounds gd). count_list (map to_key (rfriends r)) k)"
    by (simp add: get init sum_list_filtered)
  from k 1 2 3 4 show ?thesis by simp
qed

subsection \<open>roleStats\<close>













subsection \<open>The hosted counters\<close>




text \<open>
  \<^verbatim>\<open>roleStats\<close> has no test where \<^verbatim>\<open>enhancedStats\<close> has one. When the host of the
  round of the day is renamed, it throws; and when that host had been given the name of a
  member of \<^verbatim>\<open>Object.prototype\<close> before, it returns a table in which no counter has
  been incremented for the round.
\<close>

lemma roleStats_after_rename:
  "roleStats (players (getCurrent renamed_host)) (rounds (getCurrent renamed_host)) =
     Inl TypeError \<and>
   map (\<lambda>e. (fst e, rs_hosted (snd e)))
     (case roleStats (players (getCurrent member_name_host))
             (rounds (getCurrent member_name_host)) of
        Inl e \<Rightarrow> [] | Inr t \<Rightarrow> t) =
     [(''Al'', 0), (''Player 2'', 0), (''Player 3'', 0), (''Player 4'', 0), (''Player 5'', 0),
      (''Player 6'', 0)] \<and>
   length (rounds (getCurrent member_name_host)) = 1"
  by code_simp

subsection \<open>Best performers\<close>

lemma first_sort_desc_filter:
  "(case first (sort_desc key (filter P xs)) of
      None \<Rightarrow> \<forall>x\<in>set xs. \<not> P x
    | Some p \<Rightarrow> p \<in> set xs \<and> P p \<and> (\<forall>q\<in>set xs. P q \<longrightarrow> key q \<le> key p))"
proof (cases "sort_desc key (filter P xs)")
  case Nil
  then have "set (sort_desc key (filter P xs)) = {}" by simp
  then have "set (filter P xs) = {}" by (simp add: sort_desc_def)
  then show ?thesis using Nil by (auto simp: first_def filter_empty_conv)
next
  case (Cons p ps)
  have srt: "sorted (map (\<lambda>x. - key x) (sort_desc key (filter P xs)))"
    unfolding sort_desc_def by (rule sorted_sort_key)
  have st: "set (sort_desc key (filter P xs)) = {x \<in> set xs. P x}"
    by (simp add: sort_desc_def)
  from st Cons have pin: "p \<in> set xs \<and> P p" by auto
  have "key q \<le> key p" if "q \<in> set xs" "P q" for q
  proof -
    from that st Cons have "q = p \<or> q \<in> set ps" by auto
    with srt Cons show ?thesis by auto
  qed
  with pin Cons show ?thesis by (simp add: first_def)
qed

lemma playerRankings_set:
  "set (playerRankings (enhancedStats gd roster)) = to_ranking ` set (playerStats_of gd roster)"
  by (simp add: enhancedStats_def Let_def sort_desc_def)

lemma playerRankings_names:
  "distinct (map name (playerRankings (enhancedStats gd roster))) \<and>
   name ` set (playerRankings (enhancedStats gd roster)) = roster_keys roster"
proof -
  let ?T = "playerStats_of gd roster"
  have nm: "name (to_ranking e) = fst e" for e
    by (cases e) (simp add: to_ranking_def)
  from playerStats_keys[of gd roster]
  have d: "distinct (map (\<lambda>e. name (to_ranking e)) ?T)"
    and k: "fst ` set ?T = roster_keys roster"
    by (simp_all add: nm)
  from d have dy: "distinct (map name (map to_ranking ?T))"
    by (simp add: comp_def)
  have "distinct (map to_ranking ?T)" and "inj_on name (set (map to_ranking ?T))"
    using dy distinct_map[of name "map to_ranking ?T"] by blast+
  moreover have "distinct (playerRankings (enhancedStats gd roster)) = distinct (map to_ranking ?T)"
    and "set (playerRankings (enhancedStats gd roster)) = set (map to_ranking ?T)"
    by (simp_all add: enhancedStats_def Let_def sort_desc_def)
  ultimately have "distinct (map name (playerRankings (enhancedStats gd roster)))"
    using distinct_map[of name "playerRankings (enhancedStats gd roster)"] by simp
  moreover have "name ` set (playerRankings (enhancedStats gd roster)) = roster_keys roster"
    unfolding playerRankings_set using k by (simp add: image_image nm)
  ultimately show ?thesis by simp
qed

lemma playerRankings_entry:
  assumes "p \<in> set (playerRankings (enhancedStats gd roster))"
  shows "hosted p = length (filter (\<lambda>r. to_key (rhost r) = name p) (all_rounds gd)) \<and>
     hostWins p =
       length (filter (\<lambda>r. to_key (rhost r) = name p \<and> host_side_won r) (all_rounds gd)) \<and>
     hostRate p =
       (if 0 < hosted p
        then js_round (fl (fl (of_nat (hostWins p) / of_nat (hosted p)) * 100)) else 0) \<and>
     friendGames p = (\<Sum>r\<leftarrow>all_rounds gd. count_list (map to_key (rfriends r)) (name p)) \<and>
     friendWins p =
       (\<Sum>r\<leftarrow>filter host_side_won (all_rounds gd).
           count_list (map to_key (rfriends r)) (name p)) \<and>
     friendRate p =
       (if 0 < friendGames p
        then js_round (fl (fl (of_nat (friendWins p) / of_nat (friendGames p)) * 100)) else 0)"
proof -
  from assms obtain k s where e: "(k, s) \<in> set (playerStats_of gd roster)"
    and p: "p = to_ranking (k, s)"
    unfolding playerRankings_set by auto
  have fields: "name p = k" "hosted p = ps_hosted s" "hostWins p = ps_hostWins s"
    "friendGames p = ps_friendGames s" "friendWins p = ps_friendWins s"
    "hostRate p =
       (if 0 < ps_hosted s
        then js_round (fl (fl (of_nat (ps_hostWins s) / of_nat (ps_hosted s)) * 100)) else 0)"
    "friendRate p =
       (if 0 < ps_friendGames s
        then js_round (fl (fl (of_nat (ps_friendWins s) / of_nat (ps_friendGames s)) * 100))
        else 0)"
    by (simp_all add: p to_ranking_def)
  from playerStats_entry[OF e] show ?thesis
    unfolding fields by blast
qed

text \<open>
  C8. On a roster with no slot named \<^verbatim>\<open>__proto__\<close>, the rankings have one entry for
  each name of the roster. In the entry of a name, \<^verbatim>\<open>hosted\<close> is the number of rounds
  of all sessions that the name hosted and \<^verbatim>\<open>hostWins\<close> the number of those with the
  winner \<^verbatim>\<open>Host\<close> or \<^verbatim>\<open>Host Team\<close>; \<^verbatim>\<open>friendGames\<close> is the number of times the
  name stands among the friends of a round and \<^verbatim>\<open>friendWins\<close> the number of those times
  in a round with such a winner; and each rate is 0 without a game and otherwise the
  rounded double \<^verbatim>\<open>wins / games * 100\<close>. \<^verbatim>\<open>bestHost\<close> is undefined exactly when no
  entry has hosted three times or more; otherwise it is such an entry, and no entry that has
  hosted three times or more has a higher host rate. The same holds of \<^verbatim>\<open>bestFriend\<close>
  with the friend games and the friend rate.
\<close>

theorem best_performers:
  assumes "''__proto__'' \<notin> roster_keys roster"
  shows "distinct (map name (playerRankings (enhancedStats gd roster))) \<and>
   name ` set (playerRankings (enhancedStats gd roster)) = roster_keys roster \<and>
   (\<forall>p\<in>set (playerRankings (enhancedStats gd roster)).
      hosted p = length (filter (\<lambda>r. to_key (rhost r) = name p) (all_rounds gd)) \<and>
      hostWins p =
        length (filter (\<lambda>r. to_key (rhost r) = name p \<and> host_side_won r) (all_rounds gd)) \<and>
      hostRate p =
        (if 0 < hosted p
         then js_round (fl (fl (of_nat (hostWins p) / of_nat (hosted p)) * 100)) else 0) \<and>
      friendGames p = (\<Sum>r\<leftarrow>all_rounds gd. count_list (map to_key (rfriends r)) (name p)) \<and>
      friendWins p =
        (\<Sum>r\<leftarrow>filter host_side_won (all_rounds gd).
            count_list (map to_key (rfriends r)) (name p)) \<and>
      friendRate p =
        (if 0 < friendGames p
         then js_round (fl (fl (of_nat (friendWins p) / of_nat (friendGames p)) * 100))
         else 0)) \<and>
   (case bestHost (enhancedStats gd roster) of
      None \<Rightarrow> \<forall>p\<in>set (playerRankings (enhancedStats gd roster)). \<not> 3 \<le> hosted p
    | Some b \<Rightarrow> b \<in> set (playerRankings (enhancedStats gd roster)) \<and> 3 \<le> hosted b \<and>
        (\<forall>p\<in>set (playerRankings (enhancedStats gd roster)).
            3 \<le> hosted p \<longrightarrow> hostRate p \<le> hostRate b)) \<and>
   (case bestFriend (enhancedStats gd roster) of
      None \<Rightarrow> \<forall>p\<in>set (playerRankings (enhancedStats gd roster)). \<not> 3 \<le> friendGames p
    | Some b \<Rightarrow> b \<in> set (playerRankings (enhancedStats gd roster)) \<and> 3 \<le> friendGames b \<and>
        (\<forall>p\<in>set (playerRankings (enhancedStats gd roster)).
            3 \<le> friendGames p \<longrightarrow> friendRate p \<le> friendRate b))"
proof -
  let ?ranked = "sort_desc totalScore (map to_ranking (playerStats_of gd roster))"
  have s: "set (playerRankings (enhancedStats gd roster)) = set ?ranked"
    by (simp add: enhancedStats_def Let_def sort_desc_def)
  have h: "bestHost (enhancedStats gd roster) =
      first (sort_desc hostRate (filter (\<lambda>p. 3 \<le> hosted p) ?ranked))"
    by (simp add: enhancedStats_def Let_def)
  have f: "bestFriend (enhancedStats gd roster) =
      first (sort_desc friendRate (filter (\<lambda>p. 3 \<le> friendGames p) ?ranked))"
    by (simp add: enhancedStats_def Let_def)
  have best: "(case bestHost (enhancedStats gd roster) of
      None \<Rightarrow> \<forall>p\<in>set (playerRankings (enhancedStats gd roster)). \<not> 3 \<le> hosted p
    | Some b \<Rightarrow> b \<in> set (playerRankings (enhancedStats gd roster)) \<and> 3 \<le> hosted b \<and>
        (\<forall>p\<in>set (playerRankings (enhancedStats gd roster)).
            3 \<le> hosted p \<longrightarrow> hostRate p \<le> hostRate b)) \<and>
   (case bestFriend (enhancedStats gd roster) of
      None \<Rightarrow> \<forall>p\<in>set (playerRankings (enhancedStats gd roster)). \<not> 3 \<le> friendGames p
    | Some b \<Rightarrow> b \<in> set (playerRankings (enhancedStats gd roster)) \<and> 3 \<le> friendGames b \<and>
        (\<forall>p\<in>set (playerRankings (enhancedStats gd roster)).
            3 \<le> friendGames p \<longrightarrow> friendRate p \<le> friendRate b))"
    unfolding s h f
    using first_sort_desc_filter[where key = hostRate and P = "\<lambda>p. 3 \<le> hosted p" and xs = ?ranked]
      first_sort_desc_filter[where key = friendRate and P = "\<lambda>p. 3 \<le> friendGames p" and xs = ?ranked]
    by simp
  from playerRankings_names[of gd roster] playerRankings_entry[of _ gd roster] best
  show ?thesis by blast
qed


text \<open>The statistics of the day of seven rounds.\<close>

lemma seven_rounds_stats:
  "enhancedStats (gameData seven_rounds) (players (getCurrent seven_rounds)) =
   \<lparr>totalRounds = 7,
    playerRankings =
      [\<lparr>name = ''Player 1'', totalScore = 656, gamesPlayed = 7, hosted = 3,
          hostWins = 2, hostRate = 67, friendGames = 0, friendWins = 0, friendRate = 0\<rparr>,
       \<lparr>name = ''Player 2'', totalScore = 620, gamesPlayed = 7, hosted = 4,
          hostWins = 3, hostRate = 75, friendGames = 0, friendWins = 0, friendRate = 0\<rparr>,
       \<lparr>name = ''Player 3'', totalScore = 256, gamesPlayed = 7, hosted = 0,
          hostWins = 0, hostRate = 0, friendGames = 3, friendWins = 2, friendRate = 67\<rparr>,
       \<lparr>name = ''Player 4'', totalScore = 245, gamesPlayed = 7, hosted = 0,
          hostWins = 0, hostRate = 0, friendGames = 4, friendWins = 3, friendRate = 75\<rparr>,
       \<lparr>name = ''Player 5'', totalScore = 113, gamesPlayed = 7, hosted = 0,
          hostWins = 0, hostRate = 0, friendGames = 0, friendWins = 0, friendRate = 0\<rparr>,
       \<lparr>name = ''Player 6'', totalScore = 113, gamesPlayed = 7, hosted = 0,
          hostWins = 0, hostRate = 0, friendGames = 0, friendWins = 0, friendRate = 0\<rparr>],
    bestHost =
      Some \<lparr>name = ''Player 2'', totalScore = 620, gamesPlayed = 7, hosted = 4,
          hostWins = 3, hostRate = 75, friendGames = 0, friendWins = 0, friendRate = 0\<rparr>,
    bestFriend =
      Some \<lparr>name = ''Player 4'', totalScore = 245, gamesPlayed = 7, hosted = 0,
          hostWins = 0, hostRate = 0, friendGames = 4, friendWins = 3, friendRate = 75\<rparr>,
    mostGamesPlayed =
      Some \<lparr>name = ''Player 1'', totalScore = 656, gamesPlayed = 7, hosted = 3,
          hostWins = 2, hostRate = 67, friendGames = 0, friendWins = 0, friendRate = 0\<rparr>\<rparr>"
  by code_simp

text \<open>
  On that day two players have hosted three rounds or more, with rates of 67 and 75, and
  two have been friends three times or more, with rates of 67 and 75. The best host and the
  best friend are the ones with 75, neither of whom has the highest total score, and the
  counters of their entries are the numbers of rounds of the day that they hosted, won as
  host, and played and won as friend.
\<close>

theorem best_performers_witness:
  "map_option (\<lambda>b. (name b, hostRate b)) (bestHost
      (enhancedStats (gameData seven_rounds) (players (getCurrent seven_rounds)))) =
     Some (''Player 2'', 75) \<and>
   (''Player 1'', 3, 67) \<in> (\<lambda>p. (name p, hosted p, hostRate p)) ` set (playerRankings
      (enhancedStats (gameData seven_rounds) (players (getCurrent seven_rounds)))) \<and>
   length (filter (\<lambda>r. to_key (rhost r) = ''Player 2'') (all_rounds (gameData seven_rounds))) = 4 \<and>
   length (filter (\<lambda>r. to_key (rhost r) = ''Player 2'' \<and> host_side_won r)
     (all_rounds (gameData seven_rounds))) = 3 \<and>
   map_option (\<lambda>b. (name b, friendRate b)) (bestFriend
      (enhancedStats (gameData seven_rounds) (players (getCurrent seven_rounds)))) =
     Some (''Player 4'', 75) \<and>
   (''Player 3'', 3, 67) \<in> (\<lambda>p. (name p, friendGames p, friendRate p)) ` set (playerRankings
      (enhancedStats (gameData seven_rounds) (players (getCurrent seven_rounds)))) \<and>
   (\<Sum>r\<leftarrow>all_rounds (gameData seven_rounds). count_list (map to_key (rfriends r)) ''Player 4'') = 4 \<and>
   (\<Sum>r\<leftarrow>filter host_side_won (all_rounds (gameData seven_rounds)).
       count_list (map to_key (rfriends r)) ''Player 4'') = 3"
proof -
  let ?E = "enhancedStats (gameData seven_rounds) (players (getCurrent seven_rounds))"
  let ?host = "\<lparr>name = ''Player 2'', totalScore = 620, gamesPlayed = 7, hosted = 4,
          hostWins = 3, hostRate = 75, friendGames = 0, friendWins = 0, friendRate = 0\<rparr>"
  let ?friend = "\<lparr>name = ''Player 4'', totalScore = 245, gamesPlayed = 7, hosted = 0,
          hostWins = 0, hostRate = 0, friendGames = 4, friendWins = 3, friendRate = 75\<rparr>"
  have plain: "''__proto__'' \<notin> roster_keys (players (getCurrent seven_rounds))"
    by code_simp
  note inst = best_performers[OF plain, of "gameData seven_rounds"]
  have h: "?host \<in> set (playerRankings ?E)" and f: "?friend \<in> set (playerRankings ?E)"
    by (simp_all add: seven_rounds_stats)
  from inst h have
    "hosted ?host = length (filter (\<lambda>r. to_key (rhost r) = name ?host)
        (all_rounds (gameData seven_rounds)))"
    "hostWins ?host = length (filter (\<lambda>r. to_key (rhost r) = name ?host \<and> host_side_won r)
        (all_rounds (gameData seven_rounds)))"
    by blast+
  then have counts_h:
    "length (filter (\<lambda>r. to_key (rhost r) = ''Player 2'') (all_rounds (gameData seven_rounds))) = 4"
    "length (filter (\<lambda>r. to_key (rhost r) = ''Player 2'' \<and> host_side_won r)
       (all_rounds (gameData seven_rounds))) = 3"
    by simp_all
  from inst f have
    "friendGames ?friend = (\<Sum>r\<leftarrow>all_rounds (gameData seven_rounds).
        count_list (map to_key (rfriends r)) (name ?friend))"
    "friendWins ?friend = (\<Sum>r\<leftarrow>filter host_side_won (all_rounds (gameData seven_rounds)).
        count_list (map to_key (rfriends r)) (name ?friend))"
    by blast+
  then have counts_f:
    "(\<Sum>r\<leftarrow>all_rounds (gameData seven_rounds).
        count_list (map to_key (rfriends r)) ''Player 4'') = 4"
    "(\<Sum>r\<leftarrow>filter host_side_won (all_rounds (gameData seven_rounds)).
        count_list (map to_key (rfriends r)) ''Player 4'') = 3"
    by simp_all
  have rest: "map_option (\<lambda>b. (name b, hostRate b)) (bestHost ?E) = Some (''Player 2'', 75)"
    "(''Player 1'', 3, 67) \<in> (\<lambda>p. (name p, hosted p, hostRate p)) ` set (playerRankings ?E)"
    "map_option (\<lambda>b. (name b, friendRate b)) (bestFriend ?E) = Some (''Player 4'', 75)"
    "(''Player 3'', 3, 67) \<in> (\<lambda>p. (name p, friendGames p, friendRate p)) ` set (playerRankings ?E)"
    by (simp_all add: seven_rounds_stats image_iff)
  from counts_h counts_f rest show ?thesis by blast
qed

text \<open>A rate is the rounded double, not the rounded quotient: 23 hosted rounds won of 40
  give the double below 57.5, and the rate 57.\<close>

lemma hostRate_rounds_the_double:
  "hostRate (to_ranking (''Player 2'',
      \<lparr>ps_totalScore = 0, ps_gamesPlayed = 40, ps_hosted = 40, ps_hostWins = 23,
       ps_friendGames = 0, ps_friendWins = 0\<rparr>)) = 57 \<and>
   js_round (23 / 40 * 100) = 58"
  by code_simp

subsection \<open>The order of the rankings\<close>

text \<open>
  C6 on a state of the tracker. On the first day the first player hosts and wins a round
  with 300 points; on the second day the second player is renamed and then hosts and wins a
  round with 400 points. Over both sessions the renamed player has played one game under
  the new name and every other player two. Line 173 sorts \<^verbatim>\<open>playerRankings\<close> by total
  score, and line 178 sorts the same array again, in place, by games played: the array
  that \<^verbatim>\<open>enhancedStats\<close> returns has the highest total score last.
\<close>

theorem playerRankings_second_day:
  "map (\<lambda>p. (name p, totalScore p, gamesPlayed p))
     (playerRankings (enhancedStats (gameData second_day_played)
        (players (getCurrent second_day_played)))) =
   [(''Player 1'', 300, 2), (''Player 3'', 0, 2), (''Player 4'', 0, 2), (''Player 5'', 0, 2),
    (''Player 6'', 0, 2), (''B'', 400, 1)]"
  by code_simp

end
